theory Spec2Isabelle
  imports Complex_Main "HOL-Library.Word"
begin

section \<open>The ledger schema\<close>

text \<open>
  The transaction system lives in one SQL migration (tables \<open>users\<close>, \<open>balances\<close>,
  \<open>transactions\<close>, \<open>mutations\<close> and the PL/pgSQL functions \<open>handle_payment\<close> and
  \<open>get_user_balance\<close>) and in the route handlers of \<open>/api/mut\<close> and \<open>/api/pay\<close>.

  A table is the list of its rows. A \<open>UUID\<close> is a 128-bit value, compared as PostgreSQL
  compares it (bytewise, that is, numerically). A \<open>NUMERIC\<close> is an exact decimal, modelled
  by a rational; the special values \<open>NaN\<close> and \<open>Infinity\<close> of the type are not
  represented. A timestamp is a point on a discrete clock.
\<close>

type_synonym uuid = "128 word"
type_synonym numeric = rat
type_synonym timestamp = nat

text \<open>A nullable column is an \<open>option\<close>; \<open>banned\<close> and \<open>verified\<close> have a default but
  no \<open>NOT NULL\<close>. Columns of \<open>users\<close> that no modelled statement reads are left out.\<close>

record user_row =
  u_id :: uuid
  u_banned :: "bool option"
  u_verified :: "bool option"

record balance_row =
  b_user_id :: uuid
  b_amount :: numeric
  b_updated_at :: timestamp

record transaction_row =
  t_id :: uuid
  t_sender_id :: uuid
  t_receiver_id :: uuid
  t_amount :: numeric
  t_paid :: bool
  t_items :: numeric
  t_orderid :: string
  t_bayarvia :: string
  t_unikcode :: "numeric option"
  t_grandtotal :: numeric
  t_namaproduk :: "string option"
  t_catatan :: "string option"
  t_created_at :: timestamp
  t_updated_at :: timestamp

datatype mutation_type = Debit | Credit

record mutation_row =
  m_id :: uuid
  m_user_id :: uuid
  m_balance :: numeric
  m_prev_balance :: numeric
  m_type :: mutation_type
  m_catatan :: "string option"
  m_transaction_id :: "uuid option"
  m_created_at :: timestamp

record db =
  users :: "user_row list"
  balances :: "balance_row list"
  transactions :: "transaction_row list"
  mutations :: "mutation_row list"

text \<open>What a call reads from outside the tables: the clock (\<open>now()\<close>, and its rendering
  by \<open>to_char(now(), 'YYYYMMDD_HH24MISS')\<close>) and the results of the four calls of
  \<open>gen_random_uuid()\<close> that one payment can make.\<close>

record env =
  now :: timestamp
  now_stamp :: string
  order_uuid :: uuid
  transaction_uuid :: uuid
  debit_uuid :: uuid
  credit_uuid :: uuid

subsection \<open>Column types and constraints\<close>

datatype sql_exception =
    Numeric_value_out_of_range
  | Not_null_violation
  | Check_violation
  | Unique_violation
  | Foreign_key_violation

text \<open>\<open>SQLERRM\<close>, the message of the exception being handled.\<close>

fun sqlerrm :: "sql_exception \<Rightarrow> string" where
  "sqlerrm Numeric_value_out_of_range = ''numeric field overflow''"
| "sqlerrm Not_null_violation = ''null value in column violates not-null constraint''"
| "sqlerrm Check_violation = ''new row for relation violates check constraint''"
| "sqlerrm Unique_violation = ''duplicate key value violates unique constraint''"
| "sqlerrm Foreign_key_violation = ''insert or update on table violates foreign key constraint''"

definition bind_sql :: "sql_exception + 'a \<Rightarrow> ('a \<Rightarrow> sql_exception + 'b) \<Rightarrow> sql_exception + 'b" where
  "bind_sql m f = (case m of Inl ex \<Rightarrow> Inl ex | Inr x \<Rightarrow> f x)"

text \<open>Storing into a \<open>NUMERIC(15,2)\<close> column rounds to two fractional digits, ties away
  from zero, and raises when the rounded value needs more than thirteen integer digits.\<close>

definition round_scale2 :: "numeric \<Rightarrow> numeric" where
  "round_scale2 x =
     (if 0 \<le> x then of_int \<lfloor>x * 100 + 1 / 2\<rfloor> / 100
      else - (of_int \<lfloor>- x * 100 + 1 / 2\<rfloor> / 100))"

definition numeric_15_2 :: "numeric \<Rightarrow> sql_exception + numeric" where
  "numeric_15_2 x =
     (let r = round_scale2 x
      in if 10 ^ 13 \<le> \<bar>r\<bar> then Inl Numeric_value_out_of_range else Inr r)"

text \<open>The text form of a UUID: 32 lower-case hexadecimal digits in groups 8-4-4-4-12.\<close>

definition hex_digit :: "nat \<Rightarrow> char" where
  "hex_digit d = ''0123456789abcdef'' ! (d mod 16)"

fun hex_fixed :: "nat \<Rightarrow> nat \<Rightarrow> string" where
  "hex_fixed 0 n = []"
| "hex_fixed (Suc w) n = hex_fixed w (n div 16) @ [hex_digit n]"

definition uuid_text :: "uuid \<Rightarrow> string" where
  "uuid_text u =
     (let h = hex_fixed 32 (unat u)
      in take 8 h @ ''-'' @ take 4 (drop 8 h) @ ''-'' @ take 4 (drop 12 h) @ ''-''
         @ take 4 (drop 16 h) @ ''-'' @ drop 20 h)"

text \<open>\<open>UPDATE t SET ... WHERE ...\<close>: every row that matches is replaced, in table order; an
  exception raised while computing a new row aborts the statement.\<close>

fun sql_update ::
  "('r \<Rightarrow> bool) \<Rightarrow> ('r \<Rightarrow> sql_exception + 'r) \<Rightarrow> 'r list \<Rightarrow> sql_exception + 'r list" where
  "sql_update wh st [] = Inr []"
| "sql_update wh st (r # rs) =
     (if wh r
      then bind_sql (st r) (\<lambda>r'. bind_sql (sql_update wh st rs) (\<lambda>rs'. Inr (r' # rs')))
      else bind_sql (sql_update wh st rs) (\<lambda>rs'. Inr (r # rs')))"

text \<open>\<open>SELECT amount INTO v FROM balances WHERE user_id = uid\<close>: the first matching row, or
  \<open>NULL\<close> when there is none (\<open>amount\<close> itself is \<open>NOT NULL\<close>).\<close>

definition select_amount :: "db \<Rightarrow> uuid \<Rightarrow> numeric option" where
  "select_amount s uid =
     (case filter (\<lambda>r. b_user_id r = uid) (balances s) of
        [] \<Rightarrow> None
      | r # _ \<Rightarrow> Some (b_amount r))"

text \<open>\<open>EXISTS (SELECT 1 FROM users WHERE id = uid AND banned = false)\<close>: a row whose
  \<open>banned\<close> is \<open>NULL\<close> does not satisfy the condition.\<close>

definition user_not_banned :: "db \<Rightarrow> uuid \<Rightarrow> bool" where
  "user_not_banned s uid = list_ex (\<lambda>u. u_id u = uid \<and> u_banned u = Some False) (users s)"

definition user_exists :: "db \<Rightarrow> uuid \<Rightarrow> bool" where
  "user_exists s uid = list_ex (\<lambda>u. u_id u = uid) (users s)"

definition orderid_exists :: "db \<Rightarrow> string \<Rightarrow> bool" where
  "orderid_exists s oid = list_ex (\<lambda>t. t_orderid t = oid) (transactions s)"

text \<open>The three \<open>INSERT\<close> statements. Each coerces the values to the column types, then
  checks \<open>NOT NULL\<close> and \<open>CHECK\<close>, then the unique indexes, then the foreign keys.\<close>

definition insert_balance :: "env \<Rightarrow> db \<Rightarrow> uuid \<Rightarrow> numeric \<Rightarrow> sql_exception + db" where
  "insert_balance e s uid amt =
     bind_sql (numeric_15_2 amt) (\<lambda>a.
       if list_ex (\<lambda>r. b_user_id r = uid) (balances s) then Inl Unique_violation
       else if \<not> user_exists s uid then Inl Foreign_key_violation
       else Inr (s\<lparr>balances := balances s @
              [\<lparr>b_user_id = uid, b_amount = a, b_updated_at = now e\<rparr>]\<rparr>))"

definition insert_transaction ::
  "env \<Rightarrow> db \<Rightarrow> uuid \<Rightarrow> uuid \<Rightarrow> numeric \<Rightarrow> bool \<Rightarrow> string \<Rightarrow> string option \<Rightarrow> numeric
     \<Rightarrow> string option \<Rightarrow> string option \<Rightarrow> sql_exception + (uuid \<times> db)" where
  "insert_transaction e s sender receiver amt paid oid bayarvia grandtotal namaproduk catatan =
     bind_sql (numeric_15_2 amt) (\<lambda>a.
     bind_sql (numeric_15_2 grandtotal) (\<lambda>g.
       case bayarvia of
         None \<Rightarrow> Inl Not_null_violation
       | Some via \<Rightarrow>
           if \<not> 0 < a then Inl Check_violation
           else if list_ex (\<lambda>t. t_id t = transaction_uuid e) (transactions s)
             then Inl Unique_violation
           else if orderid_exists s oid then Inl Unique_violation
           else if \<not> user_exists s sender then Inl Foreign_key_violation
           else if \<not> user_exists s receiver then Inl Foreign_key_violation
           else Inr (transaction_uuid e,
                  s\<lparr>transactions := transactions s @
                    [\<lparr>t_id = transaction_uuid e, t_sender_id = sender, t_receiver_id = receiver,
                      t_amount = a, t_paid = paid, t_items = 1, t_orderid = oid,
                      t_bayarvia = via, t_unikcode = None, t_grandtotal = g,
                      t_namaproduk = namaproduk, t_catatan = catatan,
                      t_created_at = now e, t_updated_at = now e\<rparr>]\<rparr>)))"

definition insert_mutation ::
  "env \<Rightarrow> db \<Rightarrow> uuid \<Rightarrow> uuid \<Rightarrow> numeric \<Rightarrow> numeric \<Rightarrow> mutation_type \<Rightarrow> string \<Rightarrow> uuid
     \<Rightarrow> sql_exception + db" where
  "insert_mutation e s new_id uid bal prev ty catatan txid =
     bind_sql (numeric_15_2 bal) (\<lambda>b.
     bind_sql (numeric_15_2 prev) (\<lambda>p.
       if list_ex (\<lambda>m. m_id m = new_id) (mutations s) then Inl Unique_violation
       else if \<not> user_exists s uid then Inl Foreign_key_violation
       else if \<not> list_ex (\<lambda>t. t_id t = txid) (transactions s) then Inl Foreign_key_violation
       else Inr (s\<lparr>mutations := mutations s @
              [\<lparr>m_id = new_id, m_user_id = uid, m_balance = b, m_prev_balance = p,
                m_type = ty, m_catatan = Some catatan, m_transaction_id = Some txid,
                m_created_at = now e\<rparr>]\<rparr>)))"

section \<open>\<open>get_user_balance\<close>\<close>

definition get_user_balance :: "db \<Rightarrow> uuid \<Rightarrow> numeric" where
  "get_user_balance s user_id_param =
     (let v_balance = select_amount s user_id_param
      in case v_balance of None \<Rightarrow> 0 | Some a \<Rightarrow> a)"

section \<open>\<open>handle_payment\<close>\<close>

text \<open>The value of \<open>json_build_object\<close>: the keys with their values, in the order given.\<close>

datatype json_value = JString string | JNumber numeric | JBool bool

type_synonym json = "(string \<times> json_value) list"

text \<open>What one call leaves behind: the JSON it returns, the tables, and the rows of
  \<open>balances\<close> it locked with \<open>SELECT ... FOR UPDATE\<close>, in the order of acquisition.\<close>

record outcome =
  result_json :: json
  result_db :: db
  row_locks :: "uuid list"

definition error_json :: "string \<Rightarrow> string \<Rightarrow> json" where
  "error_json msg code = [(''error'', JString msg), (''code'', JString code)]"

definition for_update_rows :: "db \<Rightarrow> uuid \<Rightarrow> uuid list" where
  "for_update_rows s uid = map b_user_id (filter (\<lambda>r. b_user_id r = uid) (balances s))"

definition final_orderid :: "env \<Rightarrow> string option \<Rightarrow> string" where
  "final_orderid e p_orderid =
     (case p_orderid of
        Some oid \<Rightarrow> oid
      | None \<Rightarrow> ''TRX_'' @ now_stamp e @ ''_'' @ take 8 (uuid_text (order_uuid e)))"

text \<open>The statements after the funds check, from storing the previous balances to the
  success response. Any of them can raise; what the block wrote until then is discarded by
  the handler below. The \<open>BEFORE UPDATE\<close> trigger of \<open>balances\<close> sets \<open>updated_at\<close> to the
  clock value that the statement assigns anyway. In the branch that creates the receiver's
  row, \<open>v_receiver_balance\<close> is assigned the amount and is used, so changed, by the credit
  mutation and by the response.\<close>

definition payment_writes ::
  "env \<Rightarrow> db \<Rightarrow> uuid \<Rightarrow> uuid \<Rightarrow> numeric \<Rightarrow> string \<Rightarrow> string option \<Rightarrow> string option
     \<Rightarrow> string option \<Rightarrow> numeric \<Rightarrow> numeric option \<Rightarrow> sql_exception + (json \<times> db)" where
  "payment_writes e s p_sender_id p_receiver_id p_amount v_final_orderid p_bayarvia p_namaproduk
       p_catatan v_sender_balance v_receiver_balance0 =
     (let v_sender_prev_balance = v_sender_balance;
          v_receiver_prev_balance = (case v_receiver_balance0 of None \<Rightarrow> 0 | Some b \<Rightarrow> b)
      in
      bind_sql
        (sql_update (\<lambda>r. b_user_id r = p_sender_id)
           (\<lambda>r. bind_sql (numeric_15_2 (b_amount r - p_amount))
                   (\<lambda>a. Inr (r\<lparr>b_amount := a, b_updated_at := now e\<rparr>)))
           (balances s))
        (\<lambda>bs1.
      bind_sql
        (case v_receiver_balance0 of
           Some b \<Rightarrow>
             bind_sql
               (sql_update (\<lambda>r. b_user_id r = p_receiver_id)
                  (\<lambda>r. bind_sql (numeric_15_2 (b_amount r + p_amount))
                          (\<lambda>a. Inr (r\<lparr>b_amount := a, b_updated_at := now e\<rparr>)))
                  bs1)
               (\<lambda>bs2. Inr (s\<lparr>balances := bs2\<rparr>, b))
         | None \<Rightarrow>
             bind_sql (insert_balance e (s\<lparr>balances := bs1\<rparr>) p_receiver_id p_amount)
               (\<lambda>s2. Inr (s2, p_amount)))
        (\<lambda>(s2, v_receiver_balance).
      bind_sql
        (insert_transaction e s2 p_sender_id p_receiver_id p_amount True v_final_orderid
           p_bayarvia p_amount p_namaproduk p_catatan)
        (\<lambda>(v_transaction_id, s3).
      bind_sql
        (insert_mutation e s3 (debit_uuid e) p_sender_id (v_sender_balance - p_amount)
           v_sender_prev_balance Debit (uuid_text v_transaction_id) v_transaction_id)
        (\<lambda>s4.
      bind_sql
        (insert_mutation e s4 (credit_uuid e) p_receiver_id (v_receiver_balance + p_amount)
           v_receiver_prev_balance Credit (uuid_text v_transaction_id) v_transaction_id)
        (\<lambda>s5.
      Inr ([(''success'', JBool True),
            (''transaction_id'', JString (uuid_text v_transaction_id)),
            (''orderid'', JString v_final_orderid),
            (''amount'', JNumber p_amount),
            (''sender_new_balance'', JNumber (v_sender_balance - p_amount)),
            (''receiver_new_balance'', JNumber (v_receiver_balance + p_amount))],
           s5)))))))"

text \<open>The function: the checks in their order, each returning its error object, the two
  locking reads, the funds check, the writes, and the \<open>EXCEPTION WHEN OTHERS\<close> handler, which
  undoes what the block wrote and returns \<open>DATABASE_ERROR\<close> with \<open>SQLERRM\<close>. The three
  parameters without a default are taken as not \<open>NULL\<close>.\<close>

definition handle_payment ::
  "env \<Rightarrow> db \<Rightarrow> uuid \<Rightarrow> uuid \<Rightarrow> numeric \<Rightarrow> string option \<Rightarrow> string option \<Rightarrow> string option
     \<Rightarrow> string option \<Rightarrow> outcome" where
  "handle_payment e s p_sender_id p_receiver_id p_amount p_orderid p_bayarvia p_namaproduk
       p_catatan =
     (if p_amount \<le> 0 then
        \<lparr>result_json = error_json ''Amount must be greater than 0'' ''INVALID_AMOUNT'',
         result_db = s, row_locks = []\<rparr>
      else if p_sender_id = p_receiver_id then
        \<lparr>result_json = error_json ''Cannot send to yourself'' ''SELF_TRANSFER'',
         result_db = s, row_locks = []\<rparr>
      else if \<not> user_not_banned s p_sender_id then
        \<lparr>result_json = error_json ''Sender not found or banned'' ''SENDER_NOT_FOUND'',
         result_db = s, row_locks = []\<rparr>
      else if \<not> user_not_banned s p_receiver_id then
        \<lparr>result_json = error_json ''Receiver not found or banned'' ''RECEIVER_NOT_FOUND'',
         result_db = s, row_locks = []\<rparr>
      else
        let v_final_orderid = final_orderid e p_orderid
        in if orderid_exists s v_final_orderid then
             \<lparr>result_json = error_json ''Order ID already exists'' ''DUPLICATE_ORDERID'',
              result_db = s, row_locks = []\<rparr>
           else
             let v_sender_balance = select_amount s p_sender_id;
                 v_receiver_balance = select_amount s p_receiver_id;
                 locks = for_update_rows s p_sender_id @ for_update_rows s p_receiver_id
             in case v_sender_balance of
                  None \<Rightarrow>
                    \<lparr>result_json =
                       error_json ''Sender balance not found'' ''SENDER_BALANCE_NOT_FOUND'',
                     result_db = s, row_locks = locks\<rparr>
                | Some sender_balance \<Rightarrow>
                    if sender_balance < p_amount then
                      \<lparr>result_json = error_json ''Insufficient funds'' ''INSUFFICIENT_FUNDS'',
                       result_db = s, row_locks = locks\<rparr>
                    else
                      (case payment_writes e s p_sender_id p_receiver_id p_amount
                              v_final_orderid p_bayarvia p_namaproduk p_catatan sender_balance
                              v_receiver_balance of
                         Inl ex \<Rightarrow>
                           \<lparr>result_json = error_json (sqlerrm ex) ''DATABASE_ERROR'',
                            result_db = s, row_locks = locks\<rparr>
                       | Inr (j, s') \<Rightarrow>
                           \<lparr>result_json = j, result_db = s', row_locks = locks\<rparr>))"

section \<open>\<open>GET /api/mut\<close>\<close>

text \<open>
  The handler after authentication, on the parsed query: \<open>limit\<close> and \<open>offset\<close> as the
  integers \<open>parseInt\<close> produced (absent: the defaults 50 and 0), \<open>type\<close> as \<open>debit\<close>,
  \<open>credit\<close> or absent. The store is taken to answer both queries; JavaScript's numbers are
  modelled by exact rationals. \<open>order\<close> by \<open>created_at\<close> descending is a stable sort,
  reversed; \<open>range(offset, offset + limit - 1)\<close> keeps \<open>limit\<close> rows after skipping
  \<open>offset\<close>.
\<close>

record pagination =
  pg_limit :: int
  pg_offset :: int
  pg_total :: nat
  pg_hasMore :: bool

record summary =
  total_debits :: numeric
  total_credits :: numeric
  net_change :: numeric

record mut_data =
  data_mutations :: "mutation_row list"
  data_pagination :: pagination
  data_summary :: summary

datatype api_response =
    Error_response string string nat
  | Success_response mut_data

definition order_created_at_desc :: "mutation_row list \<Rightarrow> mutation_row list" where
  "order_created_at_desc ms = rev (sort_key m_created_at ms)"

text \<open>The \<open>forEach\<close> over the fetched rows, with the two running totals.\<close>

fun summarise :: "mutation_row list \<Rightarrow> numeric \<times> numeric \<Rightarrow> numeric \<times> numeric" where
  "summarise [] (totalDebits, totalCredits) = (totalDebits, totalCredits)"
| "summarise (mutation # rest) (totalDebits, totalCredits) =
     (let changeAmount = m_balance mutation - m_prev_balance mutation
      in if m_type mutation = Debit
         then summarise rest (totalDebits + \<bar>changeAmount\<bar>, totalCredits)
         else summarise rest (totalDebits, totalCredits + \<bar>changeAmount\<bar>))"

definition mut_GET ::
  "db \<Rightarrow> uuid \<Rightarrow> int option \<Rightarrow> int option \<Rightarrow> mutation_type option \<Rightarrow> api_response" where
  "mut_GET s userId q_limit q_offset q_type =
     (let limit = (case q_limit of None \<Rightarrow> 50 | Some n \<Rightarrow> n);
          offset = (case q_offset of None \<Rightarrow> 0 | Some n \<Rightarrow> n)
      in if \<not> (0 < limit \<and> limit \<le> 100 \<and> 0 \<le> offset) then
           Error_response ''Invalid query parameters'' ''VALIDATION_ERROR'' 400
         else
           let totalCount =
                 length (filter (\<lambda>m. m_user_id m = userId \<and>
                                   (case q_type of None \<Rightarrow> True | Some ty \<Rightarrow> m_type m = ty))
                           (mutations s));
               fetched =
                 take (nat limit) (drop (nat offset)
                   (order_created_at_desc (filter (\<lambda>m. m_user_id m = userId) (mutations s))));
               totals = summarise fetched (0, 0);
               totalDebits = fst totals;
               totalCredits = snd totals;
               netChange = totalCredits - totalDebits;
               hasMore = (offset + limit < int totalCount)
           in Success_response
                \<lparr>data_mutations = fetched,
                 data_pagination =
                   \<lparr>pg_limit = limit, pg_offset = offset, pg_total = totalCount,
                    pg_hasMore = hasMore\<rparr>,
                 data_summary =
                   \<lparr>total_debits = totalDebits, total_credits = totalCredits,
                    net_change = netChange\<rparr>\<rparr>)"

text \<open>\<open>GET_SUMMARY\<close>, the handler of the same file that reports only the summary: it
  fetches every mutation of the account.\<close>

definition mut_GET_SUMMARY :: "db \<Rightarrow> uuid \<Rightarrow> summary \<times> nat" where
  "mut_GET_SUMMARY s userId =
     (let fetched = filter (\<lambda>m. m_user_id m = userId) (mutations s);
          totals = summarise fetched (0, 0)
      in (\<lparr>total_debits = fst totals, total_credits = snd totals,
           net_change = snd totals - fst totals\<rparr>,
          length fetched))"

section \<open>Notions used in the statements\<close>

text \<open>An amount with at most two fractional digits: storing it in a \<open>NUMERIC(15,2)\<close>
  column does not change it.\<close>

definition is_scale2 :: "numeric \<Rightarrow> bool" where
  "is_scale2 x = (round_scale2 x = x)"

text \<open>What the two \<open>UPDATE\<close> statements of \<open>handle_payment\<close> make of a row of
  \<open>balances\<close>, as stored.\<close>

definition debit_row :: "env \<Rightarrow> uuid \<Rightarrow> numeric \<Rightarrow> balance_row \<Rightarrow> balance_row" where
  "debit_row e uid amt r =
     (if b_user_id r = uid
      then r\<lparr>b_amount := round_scale2 (b_amount r - amt), b_updated_at := now e\<rparr> else r)"

definition credit_row :: "env \<Rightarrow> uuid \<Rightarrow> numeric \<Rightarrow> balance_row \<Rightarrow> balance_row" where
  "credit_row e uid amt r =
     (if b_user_id r = uid
      then r\<lparr>b_amount := round_scale2 (b_amount r + amt), b_updated_at := now e\<rparr> else r)"

section \<open>Example ledgers\<close>

text \<open>Two accounts, 1 and 2, neither banned; account 1 holds \<open>a\<close>, account 2 holds \<open>b\<close> or
  has no balance row; no transaction has been recorded yet.\<close>

definition example_env :: env where
  "example_env =
     \<lparr>now = 1000, now_stamp = ''20250128_120000'', order_uuid = 20, transaction_uuid = 21,
      debit_uuid = 22, credit_uuid = 23\<rparr>"

definition two_accounts :: "numeric \<Rightarrow> numeric option \<Rightarrow> db" where
  "two_accounts a b =
     \<lparr>users = [\<lparr>u_id = 1, u_banned = Some False, u_verified = Some True\<rparr>,
               \<lparr>u_id = 2, u_banned = Some False, u_verified = Some True\<rparr>],
      balances =
        \<lparr>b_user_id = 1, b_amount = a, b_updated_at = 0\<rparr> #
        (case b of None \<Rightarrow> [] | Some x \<Rightarrow> [\<lparr>b_user_id = 2, b_amount = x, b_updated_at = 0\<rparr>]),
      transactions = [],
      mutations = []\<rparr>"

text \<open>The history of account 1 after it paid 30, then 20, and then received 5.\<close>

definition mutation_1 :: mutation_row where
  "mutation_1 = \<lparr>m_id = 31, m_user_id = 1, m_balance = 70, m_prev_balance = 100, m_type = Debit,
     m_catatan = None, m_transaction_id = Some 41, m_created_at = 1\<rparr>"

definition mutation_2 :: mutation_row where
  "mutation_2 = \<lparr>m_id = 32, m_user_id = 1, m_balance = 50, m_prev_balance = 70, m_type = Debit,
     m_catatan = None, m_transaction_id = Some 42, m_created_at = 2\<rparr>"

definition mutation_3 :: mutation_row where
  "mutation_3 = \<lparr>m_id = 33, m_user_id = 1, m_balance = 55, m_prev_balance = 50, m_type = Credit,
     m_catatan = None, m_transaction_id = Some 43, m_created_at = 3\<rparr>"

definition history_db :: db where
  "history_db = (two_accounts 55 None)\<lparr>mutations := [mutation_1, mutation_2, mutation_3]\<rparr>"

section \<open>Properties\<close>

subsection \<open>Reading the tables\<close>

lemma bind_sql_Inr_iff: "bind_sql m f = Inr y \<longleftrightarrow> (\<exists>x. m = Inr x \<and> f x = Inr y)"
  by (cases m) (simp_all add: bind_sql_def)

lemma filter_key_distinct:
  "distinct (map k rs) \<Longrightarrow> r \<in> set rs \<Longrightarrow> filter (\<lambda>x. k x = k r) rs = [r]"
proof (induction rs)
  case Nil
  then show ?case by simp
next
  case (Cons a rs)
  show ?case
  proof (cases "a = r")
    case True
    from Cons.prems(1) have "k a \<notin> k ` set rs" by simp
    with True have "\<forall>x\<in>set rs. k x \<noteq> k r" by (metis imageI)
    then have "filter (\<lambda>x. k x = k r) rs = []" by (simp add: filter_empty_conv)
    with True show ?thesis by simp
  next
    case False
    with Cons.prems have "r \<in> set rs" and "distinct (map k rs)" by auto
    from Cons.prems(1) \<open>r \<in> set rs\<close> have "k a \<noteq> k r"
      by (metis distinct.simps(2) imageI list.simps(9) list.set_map)
    with Cons.IH \<open>r \<in> set rs\<close> \<open>distinct (map k rs)\<close> show ?thesis by simp
  qed
qed

lemma select_amount_no_row:
  "\<forall>r\<in>set (balances s). b_user_id r \<noteq> uid \<Longrightarrow> select_amount s uid = None"
  by (simp add: select_amount_def filter_empty_conv)

lemma select_amount_row:
  assumes "distinct (map b_user_id (balances s))" and "r \<in> set (balances s)" and "b_user_id r = uid"
  shows "select_amount s uid = Some (b_amount r)"
proof -
  have "filter (\<lambda>x. b_user_id x = b_user_id r) (balances s) = [r]"
    using assms(1,2) by (rule filter_key_distinct)
  with assms(3) show ?thesis by (simp add: select_amount_def)
qed

lemma for_update_rows_row:
  assumes "distinct (map b_user_id (balances s))" and "r \<in> set (balances s)" and "b_user_id r = uid"
  shows "for_update_rows s uid = [uid]"
proof -
  have "filter (\<lambda>x. b_user_id x = b_user_id r) (balances s) = [r]"
    using assms(1,2) by (rule filter_key_distinct)
  with assms(3) show ?thesis by (simp add: for_update_rows_def)
qed

subsection \<open>The statements of the payment\<close>

lemma numeric_15_2_Inr: "numeric_15_2 x = Inr a \<Longrightarrow> a = round_scale2 x"
  by (simp add: numeric_15_2_def Let_def split: if_splits)

lemma sql_update_Inr:
  "sql_update wh (\<lambda>r. bind_sql (numeric_15_2 (f r)) (\<lambda>a. Inr (upd r a))) rs = Inr rs' \<Longrightarrow>
     rs' = map (\<lambda>r. if wh r then upd r (round_scale2 (f r)) else r) rs"
  by (induction rs arbitrary: rs') (auto simp: bind_sql_Inr_iff dest: numeric_15_2_Inr)

lemma insert_balance_Inr:
  assumes "insert_balance e s uid amt = Inr s'"
  shows "s' = s\<lparr>balances := balances s @
            [\<lparr>b_user_id = uid, b_amount = round_scale2 amt, b_updated_at = now e\<rparr>]\<rparr>"
  using assms
  by (auto simp: insert_balance_def bind_sql_Inr_iff split: if_splits dest: numeric_15_2_Inr)

lemma insert_transaction_Inr:
  assumes "insert_transaction e s sid rid amt paid oid via gt np ct = Inr (tid, s')"
  shows "tid = transaction_uuid e \<and> 0 < round_scale2 amt \<and> via \<noteq> None \<and>
         s' = s\<lparr>transactions := transactions s @
                [\<lparr>t_id = transaction_uuid e, t_sender_id = sid, t_receiver_id = rid,
                  t_amount = round_scale2 amt, t_paid = paid, t_items = 1, t_orderid = oid,
                  t_bayarvia = the via, t_unikcode = None, t_grandtotal = round_scale2 gt,
                  t_namaproduk = np, t_catatan = ct,
                  t_created_at = now e, t_updated_at = now e\<rparr>]\<rparr>"
proof -
  from assms obtain a g where a: "numeric_15_2 amt = Inr a" and g: "numeric_15_2 gt = Inr g"
    by (auto simp: insert_transaction_def bind_sql_Inr_iff)
  from a g have "a = round_scale2 amt" and "g = round_scale2 gt"
    by (simp_all add: numeric_15_2_Inr)
  with assms a g show ?thesis
    by (auto simp: insert_transaction_def bind_sql_def split: option.splits if_splits)
qed

lemma insert_mutation_Inr:
  assumes "insert_mutation e s new_id uid bal prev ty ct txid = Inr s'"
  shows "s' = s\<lparr>mutations := mutations s @
            [\<lparr>m_id = new_id, m_user_id = uid, m_balance = round_scale2 bal,
              m_prev_balance = round_scale2 prev, m_type = ty, m_catatan = Some ct,
              m_transaction_id = Some txid, m_created_at = now e\<rparr>]\<rparr>"
  using assms
  by (auto simp: insert_mutation_def bind_sql_Inr_iff split: if_splits dest: numeric_15_2_Inr)

lemma payment_writes_effect:
  assumes "payment_writes e s sid rid amt oid via np ct sb rb = Inr (j, s')"
  shows "\<exists>t. users s' = users s \<and>
           balances s' =
             (case rb of
                Some b \<Rightarrow> map (credit_row e rid amt) (map (debit_row e sid amt) (balances s))
              | None \<Rightarrow> map (debit_row e sid amt) (balances s) @
                  [\<lparr>b_user_id = rid, b_amount = round_scale2 amt, b_updated_at = now e\<rparr>]) \<and>
           transactions s' = transactions s @ [t] \<and>
           t_sender_id t = sid \<and> t_receiver_id t = rid \<and> t_amount t = round_scale2 amt \<and>
           t_orderid t = oid \<and> t_paid t \<and>
           mutations s' = mutations s @
             [\<lparr>m_id = debit_uuid e, m_user_id = sid, m_balance = round_scale2 (sb - amt),
               m_prev_balance = round_scale2 sb, m_type = Debit,
               m_catatan = Some (uuid_text (t_id t)), m_transaction_id = Some (t_id t),
               m_created_at = now e\<rparr>,
              \<lparr>m_id = credit_uuid e, m_user_id = rid,
               m_balance = round_scale2 ((case rb of None \<Rightarrow> amt | Some b \<Rightarrow> b) + amt),
               m_prev_balance = round_scale2 (case rb of None \<Rightarrow> 0 | Some b \<Rightarrow> b),
               m_type = Credit,
               m_catatan = Some (uuid_text (t_id t)), m_transaction_id = Some (t_id t),
               m_created_at = now e\<rparr>]"
proof (cases rb)
  case None
  with assms obtain bs1 s2 tid s3 s4 where
    u1: "sql_update (\<lambda>r. b_user_id r = sid)
           (\<lambda>r. bind_sql (numeric_15_2 (b_amount r - amt))
                   (\<lambda>a. Inr (r\<lparr>b_amount := a, b_updated_at := now e\<rparr>)))
           (balances s) = Inr bs1"
    and i2: "insert_balance e (s\<lparr>balances := bs1\<rparr>) rid amt = Inr s2"
    and i3: "insert_transaction e s2 sid rid amt True oid via amt np ct = Inr (tid, s3)"
    and i4: "insert_mutation e s3 (debit_uuid e) sid (sb - amt) sb Debit (uuid_text tid) tid = Inr s4"
    and i5: "insert_mutation e s4 (credit_uuid e) rid (amt + amt) 0 Credit (uuid_text tid) tid = Inr s'"
    by (auto simp: payment_writes_def bind_sql_Inr_iff Let_def)
  from u1 have bs1: "bs1 = map (debit_row e sid amt) (balances s)"
    by (auto dest!: sql_update_Inr simp: debit_row_def)
  define t where "t = \<lparr>t_id = transaction_uuid e, t_sender_id = sid, t_receiver_id = rid,
      t_amount = round_scale2 amt, t_paid = True, t_items = 1, t_orderid = oid,
      t_bayarvia = the via, t_unikcode = None, t_grandtotal = round_scale2 amt,
      t_namaproduk = np, t_catatan = ct, t_created_at = now e, t_updated_at = now e\<rparr>"
  from insert_transaction_Inr [OF i3]
  have tid: "tid = t_id t" and s3: "s3 = s2\<lparr>transactions := transactions s2 @ [t]\<rparr>"
    by (simp_all add: t_def)
  have tf: "t_sender_id t = sid" "t_receiver_id t = rid" "t_amount t = round_scale2 amt"
    "t_orderid t = oid" "t_paid t"
    by (simp_all add: t_def)
  have s': "s' = s\<lparr>balances := map (debit_row e sid amt) (balances s) @
                  [\<lparr>b_user_id = rid, b_amount = round_scale2 amt, b_updated_at = now e\<rparr>],
                transactions := transactions s @ [t],
                mutations := mutations s @
                  [\<lparr>m_id = debit_uuid e, m_user_id = sid, m_balance = round_scale2 (sb - amt),
                    m_prev_balance = round_scale2 sb, m_type = Debit,
                    m_catatan = Some (uuid_text (t_id t)), m_transaction_id = Some (t_id t),
                    m_created_at = now e\<rparr>,
                   \<lparr>m_id = credit_uuid e, m_user_id = rid,
                    m_balance = round_scale2 (amt + amt), m_prev_balance = round_scale2 0,
                    m_type = Credit,
                    m_catatan = Some (uuid_text (t_id t)), m_transaction_id = Some (t_id t),
                    m_created_at = now e\<rparr>]\<rparr>"
    using bs1 insert_balance_Inr [OF i2] s3 tid insert_mutation_Inr [OF i4]
      insert_mutation_Inr [OF i5]
    by simp
  show ?thesis
    by (rule exI [of _ t]) (simp add: None s' tf)
next
  case (Some b)
  with assms obtain bs1 bs2 tid s3 s4 where
    u1: "sql_update (\<lambda>r. b_user_id r = sid)
           (\<lambda>r. bind_sql (numeric_15_2 (b_amount r - amt))
                   (\<lambda>a. Inr (r\<lparr>b_amount := a, b_updated_at := now e\<rparr>)))
           (balances s) = Inr bs1"
    and u2: "sql_update (\<lambda>r. b_user_id r = rid)
           (\<lambda>r. bind_sql (numeric_15_2 (b_amount r + amt))
                   (\<lambda>a. Inr (r\<lparr>b_amount := a, b_updated_at := now e\<rparr>)))
           bs1 = Inr bs2"
    and i3: "insert_transaction e (s\<lparr>balances := bs2\<rparr>) sid rid amt True oid via amt np ct
               = Inr (tid, s3)"
    and i4: "insert_mutation e s3 (debit_uuid e) sid (sb - amt) sb Debit (uuid_text tid) tid = Inr s4"
    and i5: "insert_mutation e s4 (credit_uuid e) rid (b + amt) b Credit (uuid_text tid) tid = Inr s'"
    by (auto simp: payment_writes_def bind_sql_Inr_iff Let_def)
  from u1 have bs1: "bs1 = map (debit_row e sid amt) (balances s)"
    by (auto dest!: sql_update_Inr simp: debit_row_def)
  from u2 have bs2: "bs2 = map (credit_row e rid amt) bs1"
    by (auto dest!: sql_update_Inr simp: credit_row_def)
  define t where "t = \<lparr>t_id = transaction_uuid e, t_sender_id = sid, t_receiver_id = rid,
      t_amount = round_scale2 amt, t_paid = True, t_items = 1, t_orderid = oid,
      t_bayarvia = the via, t_unikcode = None, t_grandtotal = round_scale2 amt,
      t_namaproduk = np, t_catatan = ct, t_created_at = now e, t_updated_at = now e\<rparr>"
  from insert_transaction_Inr [OF i3]
  have tid: "tid = t_id t"
    and s3: "s3 = s\<lparr>balances := bs2, transactions := transactions s @ [t]\<rparr>"
    by (simp_all add: t_def)
  have tf: "t_sender_id t = sid" "t_receiver_id t = rid" "t_amount t = round_scale2 amt"
    "t_orderid t = oid" "t_paid t"
    by (simp_all add: t_def)
  have s': "s' = s\<lparr>balances := map (credit_row e rid amt) (map (debit_row e sid amt) (balances s)),
                transactions := transactions s @ [t],
                mutations := mutations s @
                  [\<lparr>m_id = debit_uuid e, m_user_id = sid, m_balance = round_scale2 (sb - amt),
                    m_prev_balance = round_scale2 sb, m_type = Debit,
                    m_catatan = Some (uuid_text (t_id t)), m_transaction_id = Some (t_id t),
                    m_created_at = now e\<rparr>,
                   \<lparr>m_id = credit_uuid e, m_user_id = rid,
                    m_balance = round_scale2 (b + amt), m_prev_balance = round_scale2 b,
                    m_type = Credit,
                    m_catatan = Some (uuid_text (t_id t)), m_transaction_id = Some (t_id t),
                    m_created_at = now e\<rparr>]\<rparr>"
    using bs1 bs2 s3 tid insert_mutation_Inr [OF i4] insert_mutation_Inr [OF i5]
    by simp
  show ?thesis
    by (rule exI [of _ t]) (simp add: Some s' tf)
qed

lemma payment_writes_response:
  assumes "payment_writes e s sid rid amt oid via np ct sb rb = Inr (j, s')"
  shows "j = [(''success'', JBool True),
              (''transaction_id'', JString (uuid_text (transaction_uuid e))),
              (''orderid'', JString oid), (''amount'', JNumber amt),
              (''sender_new_balance'', JNumber (sb - amt)),
              (''receiver_new_balance'',
                 JNumber ((case rb of None \<Rightarrow> amt | Some b \<Rightarrow> b) + amt))]"
  using assms
  by (cases rb)
    (auto simp: payment_writes_def bind_sql_Inr_iff Let_def dest!: insert_transaction_Inr)

lemma handle_payment_success_path:
  assumes "map_of (result_json (handle_payment e s sid rid amt oid via np ct)) ''success''
             = Some (JBool True)"
  shows "0 < amt \<and> sid \<noteq> rid \<and> user_not_banned s sid \<and> user_not_banned s rid \<and>
         \<not> orderid_exists s (final_orderid e oid) \<and>
         (\<exists>sb. select_amount s sid = Some sb \<and> amt \<le> sb \<and>
            payment_writes e s sid rid amt (final_orderid e oid) via np ct sb
              (select_amount s rid)
            = Inr (result_json (handle_payment e s sid rid amt oid via np ct),
                   result_db (handle_payment e s sid rid amt oid via np ct)))"
  using assms
  by (auto simp: handle_payment_def Let_def error_json_def
        split: if_splits option.splits sum.splits)

lemmas example_simps =
  example_env_def two_accounts_def handle_payment_def payment_writes_def user_not_banned_def
  user_exists_def orderid_exists_def select_amount_def for_update_rows_def final_orderid_def
  insert_balance_def insert_transaction_def insert_mutation_def numeric_15_2_def
  round_scale2_def bind_sql_def error_json_def Let_def

subsection \<open>Balance query\<close>

text \<open>
  Claim C8. Under the primary key of \<open>balances\<close> (no two rows for one account),
  \<open>get_user_balance\<close> returns zero for an account without a balance row and the stored
  amount of the account's row otherwise; it has no error result.
\<close>

theorem get_user_balance_current_or_zero:
  assumes "distinct (map b_user_id (balances s))"
  shows "((\<forall>r\<in>set (balances s). b_user_id r \<noteq> uid) \<longrightarrow> get_user_balance s uid = 0) \<and>
         (\<forall>r\<in>set (balances s). b_user_id r = uid \<longrightarrow> get_user_balance s uid = b_amount r)"
  using assms by (auto simp: get_user_balance_def select_amount_no_row select_amount_row)

theorem get_user_balance_current_or_zero_witness:
  "get_user_balance (two_accounts (201 / 2) None) 2 = 0 \<and>
   get_user_balance (two_accounts (201 / 2) None) 1 = 201 / 2"
proof -
  have pk: "distinct (map b_user_id (balances (two_accounts (201 / 2) None)))"
    by (simp add: two_accounts_def)
  show ?thesis
    using get_user_balance_current_or_zero [OF pk, of 2]
      get_user_balance_current_or_zero [OF pk, of 1]
    by (simp add: two_accounts_def)
qed

subsection \<open>Payment: failures\<close>

text \<open>
  Claim C10. \<open>handle_payment\<close> always returns a JSON object. It either reports
  \<open>success\<close>, or it carries an \<open>error\<close> message and a \<open>code\<close> and leaves every table as
  it was before the call; this covers the exception handler, whose object is built from
  \<open>SQLERRM\<close> and \<open>DATABASE_ERROR\<close>.
\<close>

theorem handle_payment_failure_is_error_json_and_rollback:
  fixes e :: env and s :: db and p_sender_id p_receiver_id :: uuid and p_amount :: numeric
    and p_orderid p_bayarvia p_namaproduk p_catatan :: "string option"
  defines "r \<equiv> handle_payment e s p_sender_id p_receiver_id p_amount p_orderid p_bayarvia
                p_namaproduk p_catatan"
  shows "(map_of (result_json r) ''success'' = Some (JBool True)
          \<and> map_of (result_json r) ''error'' = None)
       \<or> (map_of (result_json r) ''success'' = None
          \<and> (\<exists>msg code. map_of (result_json r) ''error'' = Some (JString msg)
                \<and> map_of (result_json r) ''code'' = Some (JString code))
          \<and> result_db r = s)"
  unfolding r_def handle_payment_def
  by (auto simp: Let_def error_json_def split: option.splits sum.splits
        dest!: payment_writes_response)

text \<open>
  Claim C3. When the amount is positive, sender and receiver differ, both are present and
  not banned, the order identifier is new and the sender has a balance row, the call
  answers \<open>INSUFFICIENT_FUNDS\<close> exactly when the sender's stored amount is below the
  requested amount, and then the tables are unchanged.
\<close>

theorem handle_payment_insufficient_funds_iff:
  assumes "0 < p_amount" and "p_sender_id \<noteq> p_receiver_id"
    and "user_not_banned s p_sender_id" and "user_not_banned s p_receiver_id"
    and "\<not> orderid_exists s (final_orderid e p_orderid)"
    and "distinct (map b_user_id (balances s))"
    and "row \<in> set (balances s)" and "b_user_id row = p_sender_id"
  shows "(map_of (result_json (handle_payment e s p_sender_id p_receiver_id p_amount p_orderid
             p_bayarvia p_namaproduk p_catatan)) ''code'' = Some (JString ''INSUFFICIENT_FUNDS''))
           = (b_amount row < p_amount)
       \<and> (b_amount row < p_amount \<longrightarrow>
            result_db (handle_payment e s p_sender_id p_receiver_id p_amount p_orderid
              p_bayarvia p_namaproduk p_catatan) = s)"
proof -
  have sel: "select_amount s p_sender_id = Some (b_amount row)"
    using assms(6-8) by (rule select_amount_row)
  show ?thesis
    using assms(1-5) sel
    by (auto simp: handle_payment_def Let_def error_json_def split: sum.splits
          dest!: payment_writes_response)
qed

theorem handle_payment_insufficient_funds_iff_witness:
  "map_of (result_json (handle_payment example_env (two_accounts 10 (Some 0)) 1 2 (1001 / 100)
      None (Some ''transfer'') None None)) ''code'' = Some (JString ''INSUFFICIENT_FUNDS'') \<and>
   result_db (handle_payment example_env (two_accounts 10 (Some 0)) 1 2 (1001 / 100)
      None (Some ''transfer'') None None) = two_accounts 10 (Some 0)"
proof -
  let ?s = "two_accounts 10 (Some 0)"
  let ?row = "\<lparr>b_user_id = 1, b_amount = 10, b_updated_at = 0\<rparr>"
  have h1: "(0::numeric) < 1001 / 100" and h2: "(1::uuid) \<noteq> 2" by simp_all
  have h3: "user_not_banned ?s 1" and h4: "user_not_banned ?s 2"
    by (simp_all add: two_accounts_def user_not_banned_def)
  have h5: "\<not> orderid_exists ?s (final_orderid example_env None)"
    by (simp add: two_accounts_def orderid_exists_def)
  have h6: "distinct (map b_user_id (balances ?s))" by (simp add: two_accounts_def)
  have h7: "?row \<in> set (balances ?s)" by (simp add: two_accounts_def)
  have h8: "b_user_id ?row = 1" by simp
  show ?thesis
    using handle_payment_insufficient_funds_iff [OF h1 h2 h3 h4 h5 h6 h7 h8,
      of "Some ''transfer''" None None]
    by simp
qed

subsection \<open>Payment: row locks\<close>

text \<open>
  Claim C9, as the code has it. When a call reaches the locking reads and both accounts
  have a balance row, the sender's row is locked first and the receiver's second,
  whichever identifier sorts lower.
\<close>

theorem handle_payment_locks_sender_first:
  assumes "0 < p_amount" and "p_sender_id \<noteq> p_receiver_id"
    and "user_not_banned s p_sender_id" and "user_not_banned s p_receiver_id"
    and "\<not> orderid_exists s (final_orderid e p_orderid)"
    and "distinct (map b_user_id (balances s))"
    and "srow \<in> set (balances s)" and "b_user_id srow = p_sender_id"
    and "rrow \<in> set (balances s)" and "b_user_id rrow = p_receiver_id"
  shows "row_locks (handle_payment e s p_sender_id p_receiver_id p_amount p_orderid
           p_bayarvia p_namaproduk p_catatan) = [p_sender_id, p_receiver_id]"
proof -
  have sel: "select_amount s p_sender_id = Some (b_amount srow)"
    using assms(6-8) by (rule select_amount_row)
  have ls: "for_update_rows s p_sender_id = [p_sender_id]"
    using assms(6-8) by (rule for_update_rows_row)
  have lr: "for_update_rows s p_receiver_id = [p_receiver_id]"
    using assms(6,9,10) by (rule for_update_rows_row)
  show ?thesis
    using assms(1-5) sel ls lr
    by (auto simp: handle_payment_def Let_def split: sum.splits)
qed

theorem handle_payment_locks_sender_first_witness:
  "row_locks (handle_payment example_env (two_accounts 100 (Some 50)) 2 1 30
      (Some ''ORDER_1'') (Some ''transfer'') None None) = [2, 1]"
proof -
  let ?s = "two_accounts 100 (Some 50)"
  let ?row1 = "\<lparr>b_user_id = 1, b_amount = 100, b_updated_at = 0\<rparr>"
  let ?row2 = "\<lparr>b_user_id = 2, b_amount = 50, b_updated_at = 0\<rparr>"
  have h1: "(0::numeric) < 30" and h2: "(2::uuid) \<noteq> 1" by simp_all
  have h3: "user_not_banned ?s 2" and h4: "user_not_banned ?s 1"
    by (simp_all add: two_accounts_def user_not_banned_def)
  have h5: "\<not> orderid_exists ?s (final_orderid example_env (Some ''ORDER_1''))"
    by (simp add: two_accounts_def orderid_exists_def)
  have h6: "distinct (map b_user_id (balances ?s))" by (simp add: two_accounts_def)
  have h7: "?row2 \<in> set (balances ?s)" and h9: "?row1 \<in> set (balances ?s)"
    by (simp_all add: two_accounts_def)
  have h8: "b_user_id ?row2 = 2" and h10: "b_user_id ?row1 = 1" by simp_all
  show ?thesis
    using handle_payment_locks_sender_first [OF h1 h2 h3 h4 h5 h6 h7 h8 h9 h10,
      of "Some ''transfer''" None None]
    by simp
qed

text \<open>Claim C9 as the specification words it (the lower identifier is locked first) fails
  there: account 2 pays account 1, both rows are locked, and the first lock is on the row of
  account 2, the higher identifier.\<close>

theorem handle_payment_locks_not_sorted:
  "row_locks (handle_payment example_env (two_accounts 100 (Some 50)) 2 1 30
      (Some ''ORDER_1'') (Some ''transfer'') None None) = [2, 1] \<and> (1::uuid) < 2"
  by (simp add: example_simps)

subsection \<open>Payment: what a successful call reports and records\<close>

text \<open>On every successful call the reported sender balance is the locked balance less the
  amount and is not negative; the reported receiver balance is the amount added to the
  receiver's locked balance or, when the receiver had no row, to the amount itself.\<close>

lemma handle_payment_success_reports:
  assumes "map_of (result_json (handle_payment e s sid rid amt oid via np ct)) ''success''
             = Some (JBool True)"
  shows "\<exists>sb. select_amount s sid = Some sb \<and> 0 \<le> sb - amt \<and>
           map_of (result_json (handle_payment e s sid rid amt oid via np ct))
             ''sender_new_balance'' = Some (JNumber (sb - amt)) \<and>
           map_of (result_json (handle_payment e s sid rid amt oid via np ct))
             ''receiver_new_balance''
           = Some (JNumber ((case select_amount s rid of None \<Rightarrow> amt | Some b \<Rightarrow> b) + amt))"
proof -
  from handle_payment_success_path [OF assms] obtain sb where
    sel: "select_amount s sid = Some sb" and le: "amt \<le> sb"
    and pw: "payment_writes e s sid rid amt (final_orderid e oid) via np ct sb
               (select_amount s rid)
             = Inr (result_json (handle_payment e s sid rid amt oid via np ct),
                    result_db (handle_payment e s sid rid amt oid via np ct))"
    by blast
  from payment_writes_response [OF pw] le sel show ?thesis by simp
qed

text \<open>
  Claim C1. A successful call should report the receiver's prior balance (zero without a
  balance row) plus the amount. Account 1 holds 100.00 and pays 25.00 to account 2, which
  has no balance row: the new row holds 25.00, and the call reports 50.00.
\<close>

theorem handle_payment_new_receiver_reported_twice:
  "map_of (result_json (handle_payment example_env (two_accounts 100 None) 1 2 25
      (Some ''ORDER_1'') (Some ''transfer'') None None)) ''receiver_new_balance''
     = Some (JNumber 50) \<and>
   get_user_balance (result_db (handle_payment example_env (two_accounts 100 None) 1 2 25
      (Some ''ORDER_1'') (Some ''transfer'') None None)) 2 = 25 \<and>
   get_user_balance (two_accounts 100 None) 2 = 0"
  by (simp add: example_simps get_user_balance_def floor_eq_iff)

text \<open>On every successful call one transaction row and two mutation rows are appended; the
  debit row runs from the sender's locked balance to that balance less the amount; the
  credit row runs from the receiver's locked balance (zero without a row) to the amount
  added to that balance or, without a row, to the amount itself. All as stored, that is,
  rounded to two fractional digits.\<close>

lemma handle_payment_success_records:
  assumes "map_of (result_json (handle_payment e s sid rid amt oid via np ct)) ''success''
             = Some (JBool True)"
  shows "\<exists>sb t. select_amount s sid = Some sb \<and>
           transactions (result_db (handle_payment e s sid rid amt oid via np ct))
             = transactions s @ [t] \<and>
           t_sender_id t = sid \<and> t_receiver_id t = rid \<and> t_amount t = round_scale2 amt \<and>
           mutations (result_db (handle_payment e s sid rid amt oid via np ct))
             = mutations s @
               [\<lparr>m_id = debit_uuid e, m_user_id = sid, m_balance = round_scale2 (sb - amt),
                 m_prev_balance = round_scale2 sb, m_type = Debit,
                 m_catatan = Some (uuid_text (t_id t)), m_transaction_id = Some (t_id t),
                 m_created_at = now e\<rparr>,
                \<lparr>m_id = credit_uuid e, m_user_id = rid,
                 m_balance =
                   round_scale2 ((case select_amount s rid of None \<Rightarrow> amt | Some b \<Rightarrow> b) + amt),
                 m_prev_balance =
                   round_scale2 (case select_amount s rid of None \<Rightarrow> 0 | Some b \<Rightarrow> b),
                 m_type = Credit,
                 m_catatan = Some (uuid_text (t_id t)), m_transaction_id = Some (t_id t),
                 m_created_at = now e\<rparr>]"
proof -
  from handle_payment_success_path [OF assms] obtain sb where
    sel: "select_amount s sid = Some sb"
    and pw: "payment_writes e s sid rid amt (final_orderid e oid) via np ct sb
               (select_amount s rid)
             = Inr (result_json (handle_payment e s sid rid amt oid via np ct),
                    result_db (handle_payment e s sid rid amt oid via np ct))"
    by blast
  from payment_writes_effect [OF pw] sel show ?thesis by blast
qed

text \<open>
  Claim C2. A successful call should record one transaction and two mutations whose
  differences are minus and plus the amount, also when the receiver had no balance row. In
  the payment of 25.00 to the account without a row, the credit mutation runs from 0 to
  50.00.
\<close>

theorem handle_payment_new_receiver_credit_mutation_doubled:
  "map (\<lambda>m. (m_user_id m, m_type m, m_prev_balance m, m_balance m))
     (mutations (result_db (handle_payment example_env (two_accounts 100 None) 1 2 25
        (Some ''ORDER_1'') (Some ''transfer'') None None)))
     = [(1, Debit, 100, 75), (2, Credit, 0, 50)] \<and>
   map t_amount
     (transactions (result_db (handle_payment example_env (two_accounts 100 None) 1 2 25
        (Some ''ORDER_1'') (Some ''transfer'') None None))) = [25]"
  by (simp add: example_simps floor_eq_iff)

subsection \<open>Payment: the amount\<close>

text \<open>An amount that is zero or negative is refused before any table is read.\<close>

lemma handle_payment_rejects_non_positive:
  assumes "p_amount \<le> 0"
  shows "handle_payment e s p_sender_id p_receiver_id p_amount p_orderid p_bayarvia
           p_namaproduk p_catatan
         = \<lparr>result_json = error_json ''Amount must be greater than 0'' ''INVALID_AMOUNT'',
            result_db = s, row_locks = []\<rparr>"
  using assms by (simp add: handle_payment_def)

text \<open>
  Claim C4. An amount with more than two fractional digits should be refused as an invalid
  amount, with nothing written. Account 1 holds 1.00, account 2 holds 0.50, and the amount
  is 0.015: the call succeeds, stores 0.99 and 0.52, and records a transaction of 0.02.
\<close>

theorem handle_payment_accepts_three_decimals:
  "map_of (result_json (handle_payment example_env (two_accounts 1 (Some (1 / 2))) 1 2
      (15 / 1000) (Some ''ORDER_1'') (Some ''transfer'') None None)) ''success''
     = Some (JBool True) \<and>
   map_of (result_json (handle_payment example_env (two_accounts 1 (Some (1 / 2))) 1 2
      (15 / 1000) (Some ''ORDER_1'') (Some ''transfer'') None None)) ''code'' = None \<and>
   map (\<lambda>r. (b_user_id r, b_amount r))
     (balances (result_db (handle_payment example_env (two_accounts 1 (Some (1 / 2))) 1 2
        (15 / 1000) (Some ''ORDER_1'') (Some ''transfer'') None None)))
     = [(1, 99 / 100), (2, 52 / 100)] \<and>
   map t_amount
     (transactions (result_db (handle_payment example_env (two_accounts 1 (Some (1 / 2))) 1 2
        (15 / 1000) (Some ''ORDER_1'') (Some ''transfer'') None None)))
     = [2 / 100]"
  by (simp add: example_simps floor_eq_iff)

subsection \<open>Payment: the total of the balances\<close>

lemma floor_int_plus_half: "\<lfloor>(of_int n :: rat) + 1 / 2\<rfloor> = n"
  by linarith

lemma round_scale2_hundredths: "round_scale2 (of_int n / 100) = of_int n / 100"
proof (cases "0 \<le> n")
  case True
  then have "(0::rat) \<le> of_int n / 100" by simp
  then show ?thesis by (simp add: round_scale2_def floor_int_plus_half)
next
  case False
  then have neg: "\<not> (0::rat) \<le> of_int n / 100" by simp
  have "\<lfloor>(of_int (- n) :: rat) + 1 / 2\<rfloor> = - n" by (rule floor_int_plus_half)
  then have "\<lfloor>- (of_int n :: rat) + 1 / 2\<rfloor> = - n" by simp
  with neg show ?thesis by (simp add: round_scale2_def)
qed

lemma is_scale2_iff: "is_scale2 x \<longleftrightarrow> (\<exists>n::int. x = of_int n / 100)"
proof
  assume "is_scale2 x"
  then have rx: "round_scale2 x = x" by (simp add: is_scale2_def)
  show "\<exists>n::int. x = of_int n / 100"
  proof (cases "0 \<le> x")
    case True
    with rx have "x = of_int \<lfloor>x * 100 + 1 / 2\<rfloor> / 100" by (simp add: round_scale2_def)
    then show ?thesis by blast
  next
    case False
    with rx have "x = of_int (- \<lfloor>- x * 100 + 1 / 2\<rfloor>) / 100" by (simp add: round_scale2_def)
    then show ?thesis by blast
  qed
next
  assume "\<exists>n::int. x = of_int n / 100"
  then obtain n :: int where "x = of_int n / 100" by blast
  then show "is_scale2 x" by (simp only: is_scale2_def round_scale2_hundredths)
qed

lemma is_scale2_diff: "is_scale2 x \<Longrightarrow> is_scale2 y \<Longrightarrow> is_scale2 (x - y)"
proof -
  assume "is_scale2 x" and "is_scale2 y"
  then obtain n m :: int where "x = of_int n / 100" and "y = of_int m / 100"
    by (auto simp: is_scale2_iff)
  then have "x - y = of_int (n - m) / 100" by (simp add: diff_divide_distrib)
  then show ?thesis unfolding is_scale2_iff by blast
qed

lemma is_scale2_add: "is_scale2 x \<Longrightarrow> is_scale2 y \<Longrightarrow> is_scale2 (x + y)"
proof -
  assume "is_scale2 x" and "is_scale2 y"
  then obtain n m :: int where "x = of_int n / 100" and "y = of_int m / 100"
    by (auto simp: is_scale2_iff)
  then have "x + y = of_int (n + m) / 100" by (simp add: add_divide_distrib)
  then show ?thesis unfolding is_scale2_iff by blast
qed

lemma sum_list_map_key_update:
  "distinct (map k rs) \<Longrightarrow> r \<in> set rs \<Longrightarrow>
     sum_list (map (\<lambda>x. if k x = k r then g x else (h x :: rat)) rs) = sum_list (map h rs) - h r + g r"
proof (induction rs)
  case Nil
  then show ?case by simp
next
  case (Cons a rs)
  show ?case
  proof (cases "a = r")
    case True
    from Cons.prems(1) have "k a \<notin> k ` set rs" by simp
    with True have "\<forall>x\<in>set rs. k x \<noteq> k r" by (metis imageI)
    then have eq: "map (\<lambda>x. if k x = k r then g x else h x) rs = map h rs" by simp
    from True show ?thesis by (simp add: eq)
  next
    case False
    with Cons.prems have "r \<in> set rs" and "distinct (map k rs)" by auto
    from Cons.prems(1) \<open>r \<in> set rs\<close> have "k a \<noteq> k r"
      by (metis distinct.simps(2) imageI list.simps(9) list.set_map)
    with Cons.IH \<open>r \<in> set rs\<close> \<open>distinct (map k rs)\<close> show ?thesis by simp
  qed
qed

lemma select_amount_Some:
  assumes "select_amount s uid = Some a"
  shows "\<exists>r\<in>set (balances s). b_user_id r = uid \<and> b_amount r = a"
proof -
  from assms obtain r rest where f: "filter (\<lambda>r. b_user_id r = uid) (balances s) = r # rest"
    and a: "b_amount r = a"
    by (auto simp: select_amount_def split: list.splits)
  from f have "r \<in> set (filter (\<lambda>r. b_user_id r = uid) (balances s))" by simp
  with a show ?thesis by auto
qed

lemma sum_list_amount_update:
  assumes "distinct (map b_user_id bs)" and "row \<in> set bs"
  shows "sum_list (map b_amount
           (map (\<lambda>r. if b_user_id r = b_user_id row
                      then r\<lparr>b_amount := f r, b_updated_at := t\<rparr> else r) bs))
         = sum_list (map b_amount bs) - b_amount row + f row"
proof -
  have eq: "map b_amount
          (map (\<lambda>r. if b_user_id r = b_user_id row
                     then r\<lparr>b_amount := f r, b_updated_at := t\<rparr> else r) bs)
        = map (\<lambda>r. if b_user_id r = b_user_id row then f r else b_amount r) bs"
    by simp
  show ?thesis
    unfolding eq by (rule sum_list_map_key_update [OF assms])
qed

lemma round_scale2_scale2: "is_scale2 x \<Longrightarrow> round_scale2 x = x"
  by (simp add: is_scale2_def)

lemma is_scale2_round: "is_scale2 (round_scale2 x)"
proof -
  have "\<exists>n::int. round_scale2 x = of_int n / 100"
  proof (cases "0 \<le> x")
    case True
    then show ?thesis by (auto simp: round_scale2_def)
  next
    case False
    then have "round_scale2 x = of_int (- \<lfloor>- x * 100 + 1 / 2\<rfloor>) / 100"
      by (simp add: round_scale2_def)
    then show ?thesis by blast
  qed
  then show ?thesis by (simp add: is_scale2_iff)
qed

lemma debit_row_total:
  assumes "distinct (map b_user_id bs)" and "row \<in> set bs" and "b_user_id row = sid"
    and "is_scale2 (b_amount row)" and "is_scale2 amt"
  shows "sum_list (map b_amount (map (debit_row e sid amt) bs)) = sum_list (map b_amount bs) - amt"
proof -
  have "round_scale2 (b_amount row - amt) = b_amount row - amt"
    using assms(4,5) by (simp add: is_scale2_diff round_scale2_scale2)
  moreover have "debit_row e sid amt =
      (\<lambda>r. if b_user_id r = b_user_id row
           then r\<lparr>b_amount := round_scale2 (b_amount r - amt), b_updated_at := now e\<rparr> else r)"
    using assms(3) by (auto simp: debit_row_def fun_eq_iff)
  ultimately show ?thesis
    using sum_list_amount_update [OF assms(1,2),
      where f = "\<lambda>r. round_scale2 (b_amount r - amt)" and t = "now e"]
    by simp
qed

lemma credit_row_total:
  assumes "distinct (map b_user_id bs)" and "row \<in> set bs" and "b_user_id row = rid"
    and "is_scale2 (b_amount row)" and "is_scale2 amt"
  shows "sum_list (map b_amount (map (credit_row e rid amt) bs)) = sum_list (map b_amount bs) + amt"
proof -
  have "round_scale2 (b_amount row + amt) = b_amount row + amt"
    using assms(4,5) by (simp add: is_scale2_add round_scale2_scale2)
  moreover have "credit_row e rid amt =
      (\<lambda>r. if b_user_id r = b_user_id row
           then r\<lparr>b_amount := round_scale2 (b_amount r + amt), b_updated_at := now e\<rparr> else r)"
    using assms(3) by (auto simp: credit_row_def fun_eq_iff)
  ultimately show ?thesis
    using sum_list_amount_update [OF assms(1,2),
      where f = "\<lambda>r. round_scale2 (b_amount r + amt)" and t = "now e"]
    by simp
qed

lemma debit_row_keys: "map b_user_id (map (debit_row e sid amt) bs) = map b_user_id bs"
  by (simp add: debit_row_def)

text \<open>When the stored balances and the amount have at most two fractional digits, a
  successful call leaves the total of the stored balances unchanged.\<close>

lemma handle_payment_conserves_total_two_decimals:
  assumes succ: "map_of (result_json (handle_payment e s sid rid amt oid via np ct)) ''success''
             = Some (JBool True)"
    and pk: "distinct (map b_user_id (balances s))"
    and st: "list_all (\<lambda>r. is_scale2 (b_amount r)) (balances s)"
    and am: "is_scale2 amt"
  shows "sum_list (map b_amount (balances (result_db (handle_payment e s sid rid amt oid via np ct))))
         = sum_list (map b_amount (balances s))"
proof -
  let ?s' = "result_db (handle_payment e s sid rid amt oid via np ct)"
  let ?D = "map (debit_row e sid amt) (balances s)"
  from handle_payment_success_path [OF succ] obtain sb where
    ne: "sid \<noteq> rid" and sel: "select_amount s sid = Some sb"
    and pw: "payment_writes e s sid rid amt (final_orderid e oid) via np ct sb
               (select_amount s rid)
             = Inr (result_json (handle_payment e s sid rid amt oid via np ct), ?s')"
    by blast
  from select_amount_Some [OF sel] obtain srow where
    srow: "srow \<in> set (balances s)" "b_user_id srow = sid" by blast
  from st srow(1) have ss: "is_scale2 (b_amount srow)" by (simp add: list_all_iff)
  have D: "sum_list (map b_amount ?D) = sum_list (map b_amount (balances s)) - amt"
    using pk srow ss am by (rule debit_row_total)
  from payment_writes_effect [OF pw] have bal: "balances ?s' =
      (case select_amount s rid of
         Some b \<Rightarrow> map (credit_row e rid amt) ?D
       | None \<Rightarrow> ?D @ [\<lparr>b_user_id = rid, b_amount = round_scale2 amt, b_updated_at = now e\<rparr>])"
    by blast
  show ?thesis
  proof (cases "select_amount s rid")
    case None
    with bal D am show ?thesis by (simp add: round_scale2_scale2)
  next
    case (Some b)
    from select_amount_Some [OF Some] obtain rrow where
      rrow: "rrow \<in> set (balances s)" "b_user_id rrow = rid" by blast
    let ?r' = "debit_row e sid amt rrow"
    from rrow ne have r': "?r' = rrow" by (simp add: debit_row_def)
    have in_D: "?r' \<in> set ?D" using rrow(1) by simp
    have key: "b_user_id ?r' = rid" using r' rrow(2) by simp
    have sc: "is_scale2 (b_amount ?r')"
      using st rrow(1) r' by (simp add: list_all_iff)
    have pkD: "distinct (map b_user_id ?D)" using pk by (simp only: debit_row_keys)
    have "sum_list (map b_amount (map (credit_row e rid amt) ?D)) = sum_list (map b_amount ?D) + amt"
      using pkD in_D key sc am by (rule credit_row_total)
    with bal Some D show ?thesis by simp
  qed
qed

text \<open>
  Claim C7. A successful call should leave the total of the stored balances unchanged.
  Account 1 holds 100.00, account 2 holds 50.00, and the amount is 10.005: the call
  succeeds, the sender's row is rounded to 90.00 and the receiver's to 60.01, and the total
  goes from 150.00 to 150.01.
\<close>

theorem handle_payment_three_decimals_changes_total:
  "map_of (result_json (handle_payment example_env (two_accounts 100 (Some 50)) 1 2 (10005 / 1000)
      (Some ''ORDER_1'') (Some ''transfer'') None None)) ''success'' = Some (JBool True) \<and>
   sum_list (map b_amount (balances (two_accounts 100 (Some 50)))) = 150 \<and>
   sum_list (map b_amount (balances (result_db (handle_payment example_env
      (two_accounts 100 (Some 50)) 1 2 (10005 / 1000)
      (Some ''ORDER_1'') (Some ''transfer'') None None)))) = 15001 / 100"
  by (simp add: example_simps floor_eq_iff)

subsection \<open>Mutation history\<close>

lemmas history_simps = history_db_def two_accounts_def mutation_1_def mutation_2_def mutation_3_def
  mut_GET_def mut_GET_SUMMARY_def order_created_at_desc_def Let_def

text \<open>The rows and the summary of a response do not depend on the \<open>type\<close> parameter; only
  the total does. The summary is the summary of the rows returned.\<close>

lemma mut_GET_rows_ignore_type:
  assumes "mut_GET s userId q_limit q_offset q_type = Success_response d"
  shows "\<exists>d'. mut_GET s userId q_limit q_offset None = Success_response d' \<and>
           data_mutations d' = data_mutations d \<and> data_summary d' = data_summary d \<and>
           total_debits (data_summary d) = fst (summarise (data_mutations d) (0, 0)) \<and>
           total_credits (data_summary d) = snd (summarise (data_mutations d) (0, 0))"
  using assms by (auto simp: mut_GET_def Let_def split: if_splits)

lemma mut_GET_total_counts_type:
  assumes "mut_GET s userId q_limit q_offset (Some ty) = Success_response d"
  shows "pg_total (data_pagination d)
         = length (filter (\<lambda>m. m_user_id m = userId \<and> m_type m = ty) (mutations s))"
  using assms by (auto simp: mut_GET_def Let_def split: if_splits)

text \<open>
  Claim C5. The summary should cover every mutation of the account that matches the
  filter, whatever \<open>limit\<close> and \<open>offset\<close> are. Account 1 has two debits (30 and 20) and
  one credit (5); with \<open>limit = 1\<close> the response holds the newest row only and its summary
  counts that row only, while \<open>GET_SUMMARY\<close> on the same table reports 50, 5 and -45.
\<close>

theorem mut_GET_summary_of_page_only:
  "mut_GET history_db 1 (Some 1) None None =
     Success_response
       \<lparr>data_mutations = [mutation_3],
        data_pagination = \<lparr>pg_limit = 1, pg_offset = 0, pg_total = 3, pg_hasMore = True\<rparr>,
        data_summary = \<lparr>total_debits = 0, total_credits = 5, net_change = 5\<rparr>\<rparr> \<and>
   fst (mut_GET_SUMMARY history_db 1) =
     \<lparr>total_debits = 50, total_credits = 5, net_change = - 45\<rparr>"
  by (simp add: history_simps)

text \<open>
  Claim C6. With \<open>type = debit\<close> every returned row should be a debit and the total should
  count the account's debits. On the same table the total is 2, and the rows returned are
  all three mutations, the credit first.
\<close>

theorem mut_GET_type_filter_not_applied_to_rows:
  "mut_GET history_db 1 None None (Some Debit) =
     Success_response
       \<lparr>data_mutations = [mutation_3, mutation_2, mutation_1],
        data_pagination = \<lparr>pg_limit = 50, pg_offset = 0, pg_total = 2, pg_hasMore = False\<rparr>,
        data_summary = \<lparr>total_debits = 50, total_credits = 5, net_change = - 45\<rparr>\<rparr> \<and>
   m_type mutation_3 = Credit"
  by (simp add: history_simps)

end
